theory Spec2Isabelle
  imports
    Main
    "HOL-Library.Sublist"
    "HOL-Library.Multiset"
    "HOL-Library.Product_Lexorder"
begin

section \<open>Strings\<close>

text \<open>
  A JavaScript string is the sequence of its code units, and \<open>s.length\<close> counts them.
  The model takes the code units from the 8-bit type \<^typ>\<open>char\<close> (U+0000 to U+00FF), so
  \<^term>\<open>length s\<close> is \<open>s.length\<close>. On that range \<open>toLowerCase\<close> maps A-Z and the
  accented capitals U+00C0 to U+00DE (without the multiplication sign U+00D7) to the code
  unit 32 higher and leaves every other code unit alone. None of the proofs about the
  resolver looks inside \<open>toLowerCase\<close>.
\<close>

definition lower_unit :: "char \<Rightarrow> char" where
  "lower_unit c =
     (let n = (of_char c :: nat)
      in if (65 \<le> n \<and> n \<le> 90) \<or> (192 \<le> n \<and> n \<le> 214) \<or> (216 \<le> n \<and> n \<le> 222)
         then char_of (n + 32) else c)"

definition toLowerCase :: "string \<Rightarrow> string" where
  "toLowerCase s = map lower_unit s"

text \<open>\<open>name.endsWith(q)\<close>, \<open>name.startsWith(q)\<close> and \<open>name.includes(q)\<close>.\<close>

definition endsWith :: "string \<Rightarrow> string \<Rightarrow> bool" where
  "endsWith name q = suffix q name"

definition startsWith :: "string \<Rightarrow> string \<Rightarrow> bool" where
  "startsWith name q = prefix q name"

definition includes_str :: "string \<Rightarrow> string \<Rightarrow> bool" where
  "includes_str name q = sublist q name"

section \<open>The catalog index (index.js, koreanItemDB)\<close>

text \<open>An entry of \<open>data/items_ko.json\<close>: \<open>{ id, name, icon }\<close>, the icon optional.\<close>

record catalog_item =
  item_id :: int
  name :: string
  icon :: "string option"

text \<open>
  \<open>koreanItemDB\<close> is a JavaScript \<open>Map\<close> from the lowercased name to the entry. A
  \<open>Map\<close> iterates in insertion order, and \<open>set\<close> on a key that is already there
  replaces the value where it stands; the model is the list of its (key, value) pairs in
  iteration order.
\<close>

type_synonym item_db = "(string \<times> catalog_item) list"

fun Map_set :: "item_db \<Rightarrow> string \<Rightarrow> catalog_item \<Rightarrow> item_db" where
  "Map_set [] k v = [(k, v)]"
| "Map_set ((k', v') # m) k v =
     (if k' = k then (k, v) # m else (k', v') # Map_set m k v)"

definition Map_has :: "item_db \<Rightarrow> string \<Rightarrow> bool" where
  "Map_has m k = (k \<in> set (map fst m))"

definition Map_get :: "item_db \<Rightarrow> string \<Rightarrow> catalog_item option" where
  "Map_get m k = map_of m k"

text \<open>
  What \<open>loadKoreanItemDB\<close> finds on disk: no file (it warns and returns), a file that
  \<open>JSON.parse\<close> rejects (the \<open>catch\<close> logs and returns), or the array of entries.
\<close>

datatype db_file = Missing | Unparsable | Items "catalog_item list"

definition loadKoreanItemDB :: "item_db \<Rightarrow> db_file \<Rightarrow> item_db" where
  "loadKoreanItemDB db f =
     (case f of
        Missing \<Rightarrow> db
      | Unparsable \<Rightarrow> db
      | Items data \<Rightarrow> fold (\<lambda>item m. Map_set m (toLowerCase (name item)) item) data db)"

text \<open>The index after start-up: the module creates an empty \<open>Map\<close> and loads once.\<close>

definition catalog :: "catalog_item list \<Rightarrow> item_db" where
  "catalog data = loadKoreanItemDB [] (Items data)"

section \<open>The text resolver (index.js, searchKoreanItem)\<close>

text \<open>
  The comparator \<open>sortFn\<close>: the difference of the name lengths, and of the ids when the
  lengths agree.
\<close>

definition sortFn :: "catalog_item \<Rightarrow> catalog_item \<Rightarrow> int" where
  "sortFn a b =
     (if length (name a) \<noteq> length (name b)
      then int (length (name a)) - int (length (name b))
      else item_id a - item_id b)"

text \<open>
  \<open>Array.prototype.sort\<close> with a comparator is a stable sort: elements that compare
  equal keep their order. The model inserts each element in front of the first element
  it does not come after.
\<close>

fun place :: "('a \<Rightarrow> 'a \<Rightarrow> int) \<Rightarrow> 'a \<Rightarrow> 'a list \<Rightarrow> 'a list" where
  "place cmp x [] = [x]"
| "place cmp x (y # ys) = (if cmp x y \<le> 0 then x # y # ys else y # place cmp x ys)"

definition Array_sort :: "('a \<Rightarrow> 'a \<Rightarrow> int) \<Rightarrow> 'a list \<Rightarrow> 'a list" where
  "Array_sort cmp xs = foldr (place cmp) xs []"

text \<open>\<open>xs.slice(a, b)\<close> for \<open>0 \<le> a \<le> b\<close>; both ends are clamped to the length.\<close>

definition slice :: "'a list \<Rightarrow> nat \<Rightarrow> nat \<Rightarrow> 'a list" where
  "slice xs a b = take (b - a) (drop a xs)"

text \<open>
  One round of the loop over the \<open>Map\<close>: the entry is pushed on the first of the three
  arrays whose test it passes, or on none.
\<close>

type_synonym tiers = "catalog_item list \<times> catalog_item list \<times> catalog_item list"

fun classify :: "string \<Rightarrow> string \<times> catalog_item \<Rightarrow> tiers \<Rightarrow> tiers" where
  "classify q (nm, item) (endsWithMatches, startsWithMatches, containsMatches) =
     (if endsWith nm q then (endsWithMatches @ [item], startsWithMatches, containsMatches)
      else if startsWith nm q then (endsWithMatches, startsWithMatches @ [item], containsMatches)
      else if includes_str nm q then (endsWithMatches, startsWithMatches, containsMatches @ [item])
      else (endsWithMatches, startsWithMatches, containsMatches))"

text \<open>The array \<open>allMatches\<close>: the three arrays after the loop, each sorted, in a row.\<close>

definition allMatches :: "item_db \<Rightarrow> string \<Rightarrow> catalog_item list" where
  "allMatches db queryLower =
     (case fold (classify queryLower) db ([], [], []) of
        (endsWithMatches, startsWithMatches, containsMatches) \<Rightarrow>
          Array_sort sortFn endsWithMatches @ Array_sort sortFn startsWithMatches
            @ Array_sort sortFn containsMatches)"

record search_result =
  item :: "catalog_item option"
  suggestions :: "catalog_item list"

definition searchKoreanItem :: "item_db \<Rightarrow> string \<Rightarrow> search_result" where
  "searchKoreanItem db query =
     (let queryLower = toLowerCase query
      in if Map_has db queryLower
         then \<lparr>item = Map_get db queryLower, suggestions = []\<rparr>
         else let ms = allMatches db queryLower
              in if length ms = 0 then \<lparr>item = None, suggestions = []\<rparr>
                 else \<lparr>item = Some (ms ! 0), suggestions = slice ms 1 11\<rparr>)"

subsection \<open>The tiers as the specification words them\<close>

text \<open>
  The rank by which a tier is ordered: name length first, numeric id second, compared
  lexicographically.
\<close>

definition tier_rank :: "catalog_item \<Rightarrow> nat \<times> int" where
  "tier_rank a = (length (name a), item_id a)"

text \<open>
  A tier holds the entries whose key passes a test, in ascending rank, entries of equal
  rank in catalog order.
\<close>

definition spec_tier :: "(string \<Rightarrow> bool) \<Rightarrow> item_db \<Rightarrow> catalog_item list" where
  "spec_tier P db = sort_key tier_rank (map snd (filter (\<lambda>(nm, it). P nm) db))"

definition spec_concatenation :: "item_db \<Rightarrow> string \<Rightarrow> catalog_item list" where
  "spec_concatenation db q =
     spec_tier (\<lambda>nm. endsWith nm q) db
       @ spec_tier (\<lambda>nm. \<not> endsWith nm q \<and> startsWith nm q) db
       @ spec_tier (\<lambda>nm. \<not> endsWith nm q \<and> \<not> startsWith nm q \<and> includes_str nm q) db"

text \<open>Ascending by name length, and ascending by id where the lengths agree.\<close>

definition in_tier_order :: "catalog_item \<Rightarrow> catalog_item \<Rightarrow> bool" where
  "in_tier_order a b =
     (length (name a) < length (name b)
      \<or> (length (name a) = length (name b) \<and> item_id a \<le> item_id b))"

section \<open>The price aggregator (index.js)\<close>

text \<open>
  The five worlds, in the order of the array \<open>KOREAN_SERVERS\<close>. The display names and
  the emoji are only carried into the summaries; they are written here in Latin
  transliteration.
\<close>

record world =
  world_id :: int
  world_name :: string
  world_emoji :: string

definition KOREAN_SERVERS :: "world list" where
  "KOREAN_SERVERS =
     [\<lparr>world_id = 2075, world_name = ''Carbuncle'', world_emoji = ''gem''\<rparr>,
      \<lparr>world_id = 2076, world_name = ''Chocobo'', world_emoji = ''chick''\<rparr>,
      \<lparr>world_id = 2077, world_name = ''Moogle'', world_emoji = ''bear''\<rparr>,
      \<lparr>world_id = 2078, world_name = ''Tonberry'', world_emoji = ''dagger''\<rparr>,
      \<lparr>world_id = 2080, world_name = ''Fenrir'', world_emoji = ''wolf''\<rparr>]"

text \<open>
  The values a numeric property of a report can hold: \<open>undefined\<close> (the property was
  never written), \<open>null\<close>, or a number. Prices and timestamps are integers.
\<close>

datatype jsval = Undefined | Null | Number int

text \<open>
  A listing of the price source, and likewise an entry of its \<open>recentHistory\<close>: the
  code reads \<open>worldID\<close> (listings of the data-centre response only), \<open>hq\<close> and
  \<open>pricePerUnit\<close>.
\<close>

record listing =
  worldID :: "int option"
  hq :: bool
  pricePerUnit :: int

text \<open>The body of a response, every property optional (\<open>None\<close>: not there).\<close>

record payload =
  listings :: "listing list option"
  recentHistory :: "listing list option"
  worldUploadTimes :: "(int \<times> int) list option"
  dcName :: "string option"
  hasData :: "bool option"
  lastUploadTime :: "int option"

text \<open>
  What \<open>axios.get\<close> does with one request: it resolves with a body, it resolves with
  the body \<open>null\<close>, or it rejects with an error that carries \<open>error.message\<close> and, when
  the server answered with a status outside 2xx, \<open>error.response.status\<close>. A timeout or
  a transport failure rejects without a status.
\<close>

datatype response = Body payload | NullBody | Rejected "nat option" string

text \<open>A function either returns a value or throws an error with a message.\<close>

datatype 'a outcome = Returned 'a | Thrown string

text \<open>The message of the \<open>TypeError\<close> raised by reading a property of \<open>null\<close>.\<close>

definition typeErrorMessage :: string where
  "typeErrorMessage = ''Cannot read properties of null''"

text \<open>
  One element of \<open>servers\<close>. A summary pushed by the \<open>catch\<close> of the fallback loop has
  \<open>server\<close>, \<open>serverId\<close>, \<open>emoji\<close> and \<open>error\<close> only: its other properties are
  \<open>undefined\<close>. Every other summary has no \<open>error\<close> property.
\<close>

record summary =
  server :: string
  serverId :: int
  emoji :: string
  error :: "string option"
  summary_hasData :: "bool option"
  listingCount :: jsval
  minPriceNQ :: jsval
  minPriceHQ :: jsval
  summary_lastUploadTime :: jsval

record report =
  servers :: "summary list"
  recentTradeMinNQ :: jsval
  recentTradeMinHQ :: jsval
  report_dcName :: string

text \<open>
  \<open>Math.min(...xs)\<close> on a non-empty array. With no argument it is \<open>Infinity\<close>; every
  call in the source is guarded by \<open>length > 0\<close>.
\<close>

fun Math_min :: "int list \<Rightarrow> int" where
  "Math_min (x # xs) = fold min xs x"

text \<open>
  The pattern the source repeats for each quality: filter by \<open>hq\<close>, and when the filtered
  array is not empty take the least \<open>pricePerUnit\<close>, else keep \<open>null\<close>.
\<close>

definition minPriceOf :: "bool \<Rightarrow> listing list \<Rightarrow> jsval" where
  "minPriceOf quality ls =
     (let qs = filter (\<lambda>l. hq l = quality) ls
      in if length qs > 0 then Number (Math_min (map pricePerUnit qs)) else Null)"

subsection \<open>getMarketData\<close>

definition getMarketData :: "response \<Rightarrow> payload option outcome" where
  "getMarketData r =
     (case r of
        Body d \<Rightarrow> Returned (Some d)
      | NullBody \<Rightarrow> Returned None
      | Rejected status msg \<Rightarrow>
          if status = Some 404
          then Returned (Some \<lparr>listings = Some [], recentHistory = Some [],
                 worldUploadTimes = None, dcName = None, hasData = Some False,
                 lastUploadTime = None\<rparr>)
          else Thrown msg)"

subsection \<open>getAllKoreanServerPricesFallback\<close>

text \<open>The \<open>try\<close> block of the loop, for the data one world's call returned.\<close>

definition fallbackQuote :: "world \<Rightarrow> payload \<Rightarrow> summary" where
  "fallbackQuote w d =
     (let ls = (case listings d of None \<Rightarrow> [] | Some xs \<Rightarrow> xs);
          some = (length ls > 0)
      in \<lparr>server = world_name w, serverId = world_id w, emoji = world_emoji w,
          error = None,
          summary_hasData = hasData d,
          listingCount = Number (if some then int (length ls) else 0),
          minPriceNQ = (if some then minPriceOf False ls else Null),
          minPriceHQ = (if some then minPriceOf True ls else Null),
          summary_lastUploadTime =
            (case lastUploadTime d of None \<Rightarrow> Undefined | Some t \<Rightarrow> Number t)\<rparr>)"

text \<open>The \<open>catch\<close> block of the loop.\<close>

definition failureSummary :: "world \<Rightarrow> string \<Rightarrow> summary" where
  "failureSummary w msg =
     \<lparr>server = world_name w, serverId = world_id w, emoji = world_emoji w,
      error = Some msg,
      summary_hasData = None, listingCount = Undefined, minPriceNQ = Undefined,
      minPriceHQ = Undefined, summary_lastUploadTime = Undefined\<rparr>"

text \<open>
  The summary one round of the loop pushes for a world, given the response to that
  world's request: the \<open>try\<close> block runs to its \<open>push\<close>, or \<open>getMarketData\<close> throws,
  or the body is \<open>null\<close> and \<open>data.listings\<close> throws; both throws end in the \<open>catch\<close>.
\<close>

definition fallbackEntry :: "world \<Rightarrow> response \<Rightarrow> summary" where
  "fallbackEntry w r =
     (case getMarketData r of
        Returned (Some d) \<Rightarrow> fallbackQuote w d
      | Returned None \<Rightarrow> failureSummary w typeErrorMessage
      | Thrown msg \<Rightarrow> failureSummary w msg)"

text \<open>
  One round of the loop. \<open>net\<close> is the network: the response to the request for a world
  id.
\<close>

definition fallbackRound :: "(int \<Rightarrow> response) \<Rightarrow> world \<Rightarrow> summary list \<Rightarrow> summary list" where
  "fallbackRound net w results = results @ [fallbackEntry w (net (world_id w))]"

definition getAllKoreanServerPricesFallback :: "(int \<Rightarrow> response) \<Rightarrow> report" where
  "getAllKoreanServerPricesFallback net =
     \<lparr>servers = fold (fallbackRound net) KOREAN_SERVERS [],
      recentTradeMinNQ = Null,
      recentTradeMinHQ = Null,
      report_dcName = ''Korea''\<rparr>"

subsection \<open>getAllKoreanServerPrices\<close>

text \<open>
  The summary one round of the loop over the worlds pushes, for the body of the
  data-centre response.
\<close>

definition unifiedEntry :: "payload \<Rightarrow> world \<Rightarrow> summary" where
  "unifiedEntry d w =
     (let serverListings =
            filter (\<lambda>l. worldID l = Some (world_id w))
              (case listings d of None \<Rightarrow> [] | Some xs \<Rightarrow> xs);
          some = (length serverListings > 0);
          worldUploadTime =
            (case worldUploadTimes d of
               None \<Rightarrow> Null
             | Some ts \<Rightarrow>
                 (case map_of ts (world_id w) of
                    None \<Rightarrow> Null
                  | Some t \<Rightarrow> if t = 0 then Null else Number t))
      in \<lparr>server = world_name w, serverId = world_id w, emoji = world_emoji w,
          error = None,
          summary_hasData = Some some,
          listingCount = Number (int (length serverListings)),
          minPriceNQ = (if some then minPriceOf False serverListings else Null),
          minPriceHQ = (if some then minPriceOf True serverListings else Null),
          summary_lastUploadTime = worldUploadTime\<rparr>)"

definition unifiedRound :: "payload \<Rightarrow> world \<Rightarrow> summary list \<Rightarrow> summary list" where
  "unifiedRound d w results = results @ [unifiedEntry d w]"

text \<open>
  \<open>unified\<close> is the response to the data-centre request, \<open>net\<close> the responses to the
  per-world requests. Whatever makes the \<open>try\<close> block throw ends in the fallback.
\<close>

definition getAllKoreanServerPrices :: "response \<Rightarrow> (int \<Rightarrow> response) \<Rightarrow> report" where
  "getAllKoreanServerPrices unified net =
     (case unified of
        Body d \<Rightarrow>
          (let history = (case recentHistory d of None \<Rightarrow> [] | Some hs \<Rightarrow> hs);
               some = (length history > 0)
           in \<lparr>servers = fold (unifiedRound d) KOREAN_SERVERS [],
               recentTradeMinNQ = (if some then minPriceOf False history else Null),
               recentTradeMinHQ = (if some then minPriceOf True history else Null),
               report_dcName =
                 (case dcName d of None \<Rightarrow> ''Korea''
                  | Some n \<Rightarrow> if n = [] then ''Korea'' else n)\<rparr>)
      | NullBody \<Rightarrow> getAllKoreanServerPricesFallback net
      | Rejected status msg \<Rightarrow> getAllKoreanServerPricesFallback net)"

text \<open>
  Reading a property of the report object by its name. Both paths return an object
  literal with the four properties \<open>servers\<close>, \<open>recentTradeMinNQ\<close>,
  \<open>recentTradeMinHQ\<close> and \<open>dcName\<close>; reading any other name gives \<open>undefined\<close>, here
  \<open>None\<close>.
\<close>

datatype property = Summaries "summary list" | Value jsval | Text string

definition report_property :: "report \<Rightarrow> string \<Rightarrow> property option" where
  "report_property r key =
     (if key = ''servers'' then Some (Summaries (servers r))
      else if key = ''recentTradeMinNQ'' then Some (Value (recentTradeMinNQ r))
      else if key = ''recentTradeMinHQ'' then Some (Value (recentTradeMinHQ r))
      else if key = ''dcName'' then Some (Text (report_dcName r))
      else None)"

subsection \<open>The aggregator as the specification words it\<close>

text \<open>
  A per-world call fails when it is rejected for another reason than "not found" (a
  timeout, a transport error, another status) or when its body cannot be read.
\<close>

definition call_fails :: "response \<Rightarrow> bool" where
  "call_fails r =
     (case r of Body d \<Rightarrow> False | NullBody \<Rightarrow> True | Rejected status msg \<Rightarrow> status \<noteq> Some 404)"

text \<open>The listings of a body that belong to one world, and their prices of one quality.\<close>

definition listings_of :: "payload \<Rightarrow> int \<Rightarrow> listing list" where
  "listings_of d wid =
     filter (\<lambda>l. worldID l = Some wid) (case listings d of None \<Rightarrow> [] | Some xs \<Rightarrow> xs)"

definition prices_of :: "bool \<Rightarrow> listing list \<Rightarrow> int list" where
  "prices_of quality ls = map pricePerUnit (filter (\<lambda>l. hq l = quality) ls)"

definition least_price :: "int list \<Rightarrow> jsval" where
  "least_price ps = (if ps = [] then Null else Number (Min (set ps)))"

section \<open>The summary builder (index.js, createResultEmbed)\<close>

text \<open>\<open>r.error\<close> as a condition: the property is there and is not the empty string.\<close>

definition truthy_error :: "summary \<Rightarrow> bool" where
  "truthy_error r = (case error r of None \<Rightarrow> False | Some m \<Rightarrow> m \<noteq> [])"

text \<open>
  \<open>a < b\<close> on two such values: both are converted to numbers, \<open>null\<close> to 0 and
  \<open>undefined\<close> to \<open>NaN\<close>, and a comparison with \<open>NaN\<close> is false.
\<close>

definition toNumber :: "jsval \<Rightarrow> int option" where
  "toNumber v = (case v of Undefined \<Rightarrow> None | Null \<Rightarrow> Some 0 | Number n \<Rightarrow> Some n)"

definition js_less :: "jsval \<Rightarrow> jsval \<Rightarrow> bool" where
  "js_less a b =
     (case (toNumber a, toNumber b) of (Some x, Some y) \<Rightarrow> x < y | _ \<Rightarrow> False)"

definition serversWithNQ :: "summary list \<Rightarrow> summary list" where
  "serversWithNQ rs = filter (\<lambda>r. \<not> truthy_error r \<and> minPriceNQ r \<noteq> Null) rs"

definition serversWithHQ :: "summary list \<Rightarrow> summary list" where
  "serversWithHQ rs = filter (\<lambda>r. \<not> truthy_error r \<and> minPriceHQ r \<noteq> Null) rs"

text \<open>The two loops that find the overall minimum, from \<open>null\<close>.\<close>

definition overallMinNQ :: "summary list \<Rightarrow> jsval" where
  "overallMinNQ rs =
     fold (\<lambda>r overall.
             if overall = Null \<or> js_less (minPriceNQ r) overall then minPriceNQ r else overall)
          (serversWithNQ rs) Null"

definition overallMinHQ :: "summary list \<Rightarrow> jsval" where
  "overallMinHQ rs =
     fold (\<lambda>r overall.
             if overall = Null \<or> js_less (minPriceHQ r) overall then minPriceHQ r else overall)
          (serversWithHQ rs) Null"

text \<open>
  The flag of one world in the loop that writes the price list: a summary with a truthy
  \<open>error\<close> takes the failure branch and is never flagged; otherwise the flag is
  \<open>isMin\<close>, which puts the star in front of the world's prices.
\<close>

definition isMin :: "summary list \<Rightarrow> summary \<Rightarrow> bool" where
  "isMin rs r =
     (if truthy_error r then False
      else let isMinNQ = (minPriceNQ r = overallMinNQ rs \<and> overallMinNQ rs \<noteq> Null);
               isMinHQ = (minPriceHQ r = overallMinHQ rs \<and> overallMinHQ rs \<noteq> Null)
           in isMinNQ \<or> isMinHQ)"

subsection \<open>The summary builder as the specification words it\<close>

text \<open>
  The prices a field contributes: those of the summaries without a failure marker in
  which the field is a number.
\<close>

definition present_prices :: "(summary \<Rightarrow> jsval) \<Rightarrow> summary list \<Rightarrow> int list" where
  "present_prices field rs =
     concat (map (\<lambda>r. if truthy_error r then []
                       else (case field r of Number n \<Rightarrow> [n] | _ \<Rightarrow> [])) rs)"

definition spec_overallMin :: "(summary \<Rightarrow> jsval) \<Rightarrow> summary list \<Rightarrow> jsval" where
  "spec_overallMin field rs =
     (if present_prices field rs = [] then Null
      else Number (Min (set (present_prices field rs))))"

text \<open>
  A report has the shape of the data model when every summary without a failure marker
  has both price fields written, as a number or as \<open>null\<close>.
\<close>

definition shaped :: "summary \<Rightarrow> bool" where
  "shaped r = (truthy_error r \<or> (minPriceNQ r \<noteq> Undefined \<and> minPriceHQ r \<noteq> Undefined))"

section \<open>The catalog loader (update script, parseCSV)\<close>

text \<open>
  The code units \<open>trim\<close> and \<open>parseInt\<close> skip as white space, among U+0000 to U+00FF:
  tab, line feed, vertical tab, form feed, carriage return, space and no-break space.
\<close>

definition isWhiteSpace :: "char \<Rightarrow> bool" where
  "isWhiteSpace c = ((of_char c :: nat) \<in> {9, 10, 11, 12, 13, 32, 160})"

definition trim :: "string \<Rightarrow> string" where
  "trim s = rev (dropWhile isWhiteSpace (rev (dropWhile isWhiteSpace s)))"

text \<open>
  The value of a code unit as a digit: 0-9, then a-z or A-Z for 10 to 35; 36 for a code
  unit that is no digit in any radix.
\<close>

definition digitValue :: "char \<Rightarrow> nat" where
  "digitValue c =
     (let n = (of_char c :: nat)
      in if 48 \<le> n \<and> n \<le> 57 then n - 48
         else if 97 \<le> n \<and> n \<le> 122 then n - 87
         else if 65 \<le> n \<and> n \<le> 90 then n - 55
         else 36)"

text \<open>
  A number as the loader meets it: \<open>NaN\<close>, an integer that a JavaScript number holds
  exactly (absolute value at most \<open>2^53 - 1\<close>), or a larger integer. JavaScript rounds a
  larger integer to a double and prints it rounded or with an exponent; the model does
  not compute that and says \<open>Unsafe\<close>.
\<close>

datatype jsnumber = NaN | Safe int | Unsafe

definition MAX_SAFE_INTEGER :: int where
  "MAX_SAFE_INTEGER = 9007199254740991"

text \<open>
  \<open>parseInt(s, radix)\<close>; the radix \<open>None\<close> is the call with one argument. Leading white
  space is skipped, one sign is read, without a radix (or with radix 16) a leading \<open>0x\<close>
  or \<open>0X\<close> switches to radix 16, and the longest run of digits of the radix is the
  number; no digit gives \<open>NaN\<close>.
\<close>

definition parseInt :: "string \<Rightarrow> nat option \<Rightarrow> jsnumber" where
  "parseInt s radix =
     (let S = dropWhile isWhiteSpace s;
          sign = (if S \<noteq> [] \<and> hd S = CHR ''-'' then - 1 else (1::int));
          S1 = (if S \<noteq> [] \<and> (hd S = CHR ''+'' \<or> hd S = CHR ''-'') then tl S else S);
          R0 = (case radix of None \<Rightarrow> 0 | Some r \<Rightarrow> r)
      in if R0 \<noteq> 0 \<and> (R0 < 2 \<or> 36 < R0) then NaN
         else let stripPrefix = (R0 = 0 \<or> R0 = 16);
                  hex = (stripPrefix \<and> (take 2 S1 = ''0x'' \<or> take 2 S1 = ''0X''));
                  R = (if hex then 16 else if R0 = 0 then 10 else R0);
                  S2 = (if hex then drop 2 S1 else S1);
                  Z = takeWhile (\<lambda>c. digitValue c < R) S2;
                  v = sign * int (fold (\<lambda>c acc. acc * R + digitValue c) Z 0)
              in if Z = [] then NaN
                 else if \<bar>v\<bar> \<le> MAX_SAFE_INTEGER then Safe v else Unsafe)"

text \<open>The decimal digits of a natural number.\<close>

fun digits :: "nat \<Rightarrow> string" where
  "digits n =
     (if n < 10 then [char_of (48 + n)]
      else digits (n div 10) @ [char_of (48 + n mod 10)])"

declare digits.simps [simp del]

text \<open>
  \<open>n.toString()\<close>: the text \<open>NaN\<close>, or the decimal text of an integer that is held
  exactly; \<open>None\<close> where the model does not compute the text.
\<close>

definition Number_toString :: "jsnumber \<Rightarrow> string option" where
  "Number_toString v =
     (case v of
        NaN \<Rightarrow> Some ''NaN''
      | Safe n \<Rightarrow>
          if \<bar>n\<bar> \<le> MAX_SAFE_INTEGER
          then Some (if n < 0 then CHR ''-'' # digits (nat (- n)) else digits (nat n))
          else None
      | Unsafe \<Rightarrow> None)"

text \<open>\<open>s.padStart(len, c)\<close> with a one-character filler, and \<open>s.substring(a, b)\<close> for \<open>a \<le> b\<close>.\<close>

definition padStart :: "string \<Rightarrow> nat \<Rightarrow> char \<Rightarrow> string" where
  "padStart s len c = replicate (len - length s) c @ s"

definition substring :: "string \<Rightarrow> nat \<Rightarrow> nat \<Rightarrow> string" where
  "substring s a b = take (b - a) (drop a s)"

text \<open>
  The icon path built from the icon cell once the three tests have passed; \<open>None\<close> when
  the number read from the cell is not held exactly.
\<close>

definition iconPath :: "string \<Rightarrow> string option" where
  "iconPath iconId =
     (let iconNum = parseInt iconId (Some 10)
      in case Number_toString iconNum of
           None \<Rightarrow> None
         | Some text \<Rightarrow>
             (let paddedId = padStart text 6 (CHR ''0'');
                  folder = substring paddedId 0 3 @ ''000''
              in Some (''/i/'' @ folder @ ''/'' @ paddedId @ ''.png'')))"

text \<open>
  What the loop body does with the cells \<open>cols\<close> of one data row: a row with too few
  cells is skipped and counted in \<open>errorCount\<close>; a row whose id is not positive or whose
  name is blank is passed over; every other row is pushed on \<open>items\<close>. For a row whose
  id or icon number is not held exactly the outcome depends on the rounding to a double,
  and the model says \<open>Unmodelled\<close>.
\<close>

datatype row_outcome = TooFewColumns | NotAnItem | Emitted catalog_item | Unmodelled

definition parseRow :: "nat \<Rightarrow> nat \<Rightarrow> string list \<Rightarrow> row_outcome" where
  "parseRow nameIndex iconIndex cols =
     (if length cols < max nameIndex iconIndex + 1 then TooFewColumns
      else let id = parseInt (cols ! 0) (Some 10);
               nm = cols ! nameIndex;
               iconId = cols ! iconIndex
           in (case id of
                 NaN \<Rightarrow> NotAnItem
               | Unsafe \<Rightarrow> Unmodelled
               | Safe n \<Rightarrow>
                   if 0 < n \<and> nm \<noteq> [] \<and> trim nm \<noteq> []
                   then (if iconId \<noteq> [] \<and> iconId \<noteq> ''0'' \<and> parseInt iconId None \<noteq> NaN
                         then (case iconPath iconId of
                                 None \<Rightarrow> Unmodelled
                               | Some p \<Rightarrow>
                                   Emitted \<lparr>item_id = n, name = trim nm, icon = Some p\<rparr>)
                         else Emitted \<lparr>item_id = n, name = trim nm, icon = None\<rparr>)
                   else NotAnItem))"

subsection \<open>The icon reference as the specification words it\<close>




text \<open>The code units 0 to 9.\<close>

definition is_dec :: "char \<Rightarrow> bool" where
  "is_dec c = (48 \<le> (of_char c :: nat) \<and> (of_char c :: nat) \<le> 57)"

section \<open>Example inputs\<close>

text \<open>The catalog of the specification's tier example.\<close>

definition spot :: catalog_item where
  "spot = \<lparr>item_id = 1, name = ''Spot'', icon = None\<rparr>"

definition pottery :: catalog_item where
  "pottery = \<lparr>item_id = 2, name = ''Pottery'', icon = None\<rparr>"

definition hot_pot :: catalog_item where
  "hot_pot = \<lparr>item_id = 3, name = ''Hot Pot'', icon = None\<rparr>"

text \<open>Twelve entries \<open>Pota\<close> to \<open>Potl\<close> with the ids 0 to 11.\<close>

definition twelve_pots :: "catalog_item list" where
  "twelve_pots =
     map (\<lambda>i. \<lparr>item_id = int i, name = ''Pot'' @ [char_of (97 + i)], icon = None\<rparr>) [0..<12]"

text \<open>Two entries whose names differ in letter case only.\<close>

definition potion_upper :: catalog_item where
  "potion_upper = \<lparr>item_id = 10, name = ''POTION'', icon = None\<rparr>"

definition potion_lower :: catalog_item where
  "potion_lower = \<lparr>item_id = 20, name = ''potion'', icon = Some ''/i/020000/020001.png''\<rparr>"

text \<open>
  A per-world body with two standard-quality listings, and a network in which the call
  for world 2077 times out, the call for world 2076 is answered "not found" and every
  other call returns that body.
\<close>

definition shard_payload :: payload where
  "shard_payload =
     \<lparr>listings = Some [\<lparr>worldID = None, hq = False, pricePerUnit = 50\<rparr>,
                        \<lparr>worldID = None, hq = False, pricePerUnit = 30\<rparr>],
      recentHistory = Some [], worldUploadTimes = None, dcName = None,
      hasData = Some True, lastUploadTime = Some 1700000000\<rparr>"

definition one_timeout :: "int \<Rightarrow> response" where
  "one_timeout wid =
     (if wid = 2077 then Rejected None ''timeout of 10000ms exceeded''
      else if wid = 2076 then Rejected (Some 404) ''Request failed with status code 404''
      else Body shard_payload)"

text \<open>A network in which every per-world call times out.\<close>

definition all_timeouts :: "int \<Rightarrow> response" where
  "all_timeouts wid = Rejected None ''timeout of 10000ms exceeded''"

text \<open>
  A data-centre body with listings of the worlds 2075 and 2078, one listing of a world
  that is not in the list and one without a world.
\<close>

definition dc_payload :: payload where
  "dc_payload =
     \<lparr>listings = Some [\<lparr>worldID = Some 2075, hq = False, pricePerUnit = 50\<rparr>,
                        \<lparr>worldID = Some 9999, hq = False, pricePerUnit = 1\<rparr>,
                        \<lparr>worldID = Some 2075, hq = False, pricePerUnit = 30\<rparr>,
                        \<lparr>worldID = Some 2078, hq = True, pricePerUnit = 70\<rparr>,
                        \<lparr>worldID = None, hq = True, pricePerUnit = 2\<rparr>],
      recentHistory = None, worldUploadTimes = None, dcName = None,
      hasData = None, lastUploadTime = None\<rparr>"

text \<open>
  Summaries with the standard-quality minima 50, 30, 30 and none, and a fifth world whose
  call failed.
\<close>

definition priced :: "int \<Rightarrow> jsval \<Rightarrow> jsval \<Rightarrow> summary" where
  "priced wid nq hqp =
     \<lparr>server = ''world'', serverId = wid, emoji = ''*'', error = None,
      summary_hasData = Some True, listingCount = Number 1,
      minPriceNQ = nq, minPriceHQ = hqp, summary_lastUploadTime = Null\<rparr>"

definition tie_report :: "summary list" where
  "tie_report =
     [priced 2075 (Number 50) Null,
      priced 2076 (Number 30) Null,
      priced 2077 (Number 30) (Number 90),
      priced 2078 Null Null,
      failureSummary \<lparr>world_id = 2080, world_name = ''Fenrir'', world_emoji = ''wolf''\<rparr>
        ''Network Error'']"

section \<open>The catalog index: proofs\<close>

lemma map_of_Map_set: "map_of (Map_set m k v) = (map_of m)(k \<mapsto> v)"
  by (induction m k v rule: Map_set.induct) (auto simp: fun_eq_iff)

lemma keys_Map_set: "set (map fst (Map_set m k v)) = insert k (set (map fst m))"
  by (induction m k v rule: Map_set.induct) auto

lemma distinct_Map_set: "distinct (map fst m) \<Longrightarrow> distinct (map fst (Map_set m k v))"
  by (induction m k v rule: Map_set.induct) (auto simp: keys_Map_set simp del: set_map)

lemma set_Map_set: "set (Map_set m k v) \<subseteq> insert (k, v) (set m)"
  by (induction m k v rule: Map_set.induct) auto

lemma find_app:
  "find P (xs @ ys) = (case find P xs of None \<Rightarrow> find P ys | Some x \<Rightarrow> Some x)"
  by (induction xs) auto

text \<open>Loading onto any index: the last entry of the file with a key decides it.\<close>

lemma map_of_load:
  "map_of (fold (\<lambda>item m. Map_set m (toLowerCase (name item)) item) data db) k =
     (case find (\<lambda>e. toLowerCase (name e) = k) (rev data) of
        Some e \<Rightarrow> Some e | None \<Rightarrow> map_of db k)"
proof (induction data arbitrary: db)
  case Nil
  show ?case by simp
next
  case (Cons e data)
  show ?case
    by (simp add: Cons.IH find_app map_of_Map_set split: option.splits)
qed

lemma distinct_load:
  "distinct (map fst db) \<Longrightarrow>
   distinct (map fst (fold (\<lambda>item m. Map_set m (toLowerCase (name item)) item) data db))"
  by (induction data arbitrary: db) (simp_all add: distinct_Map_set)

lemma keyed_load:
  "\<forall>(k, e) \<in> set db. k = toLowerCase (name e) \<Longrightarrow>
   \<forall>(k, e) \<in> set (fold (\<lambda>item m. Map_set m (toLowerCase (name item)) item) data db).
      k = toLowerCase (name e)"
proof (induction data arbitrary: db)
  case Nil
  then show ?case by simp
next
  case (Cons x data)
  have "\<forall>(k, e) \<in> set (Map_set db (toLowerCase (name x)) x). k = toLowerCase (name e)"
    using Cons.prems set_Map_set[of db "toLowerCase (name x)" x] by auto
  from Cons.IH[OF this] show ?case by simp
qed

lemma keys_load:
  "set (map fst (fold (\<lambda>item m. Map_set m (toLowerCase (name item)) item) data db)) =
     set (map fst db) \<union> (\<lambda>e. toLowerCase (name e)) ` set data"
  by (induction data arbitrary: db) (auto simp: keys_Map_set simp del: set_map)

lemma catalog_distinct: "distinct (map fst (catalog data))"
  by (simp add: catalog_def loadKoreanItemDB_def distinct_load)

lemma catalog_keyed: "(k, e) \<in> set (catalog data) \<Longrightarrow> k = toLowerCase (name e)"
  using keyed_load[of "[]" data] by (auto simp: catalog_def loadKoreanItemDB_def)

lemma distinct_under_map: "distinct (map f ys) \<Longrightarrow> distinct ys"
  by (simp add: distinct_map)

lemma catalog_values_distinct: "distinct (map snd (catalog data))"
proof -
  have "map fst (catalog data) = map (\<lambda>e. toLowerCase (name e)) (map snd (catalog data))"
    using catalog_keyed[of _ _ data] by (auto simp: map_eq_conv)
  with catalog_distinct[of data]
  have "distinct (map (\<lambda>e. toLowerCase (name e)) (map snd (catalog data)))" by simp
  then show ?thesis by (rule distinct_under_map)
qed

text \<open>
  Claim C8. Whatever the list of entries the index is built from, the key under which an
  entry is stored is its lowercased name: a key is in the index exactly when some entry
  of the list lowercases to it, every stored pair has the lowercased name of its entry as
  key, and no key is stored twice. Looking a key up returns the last entry of the list,
  in load order, whose lowercased name is the key.
\<close>

theorem catalog_lookup_last_wins:
  "Map_get (catalog data) k = find (\<lambda>e. toLowerCase (name e) = k) (rev data)
   \<and> (Map_has (catalog data) k \<longleftrightarrow> (\<exists>e \<in> set data. toLowerCase (name e) = k))
   \<and> (\<forall>(k', e) \<in> set (catalog data). k' = toLowerCase (name e))
   \<and> distinct (map fst (catalog data))"
proof -
  have 1: "Map_get (catalog data) k = find (\<lambda>e. toLowerCase (name e) = k) (rev data)"
    by (simp add: Map_get_def catalog_def loadKoreanItemDB_def map_of_load split: option.splits)
  have 2: "Map_has (catalog data) k \<longleftrightarrow> (\<exists>e \<in> set data. toLowerCase (name e) = k)"
    unfolding Map_has_def catalog_def loadKoreanItemDB_def
    by (auto simp: keys_load simp del: set_map)
  have 3: "\<forall>(k', e) \<in> set (catalog data). k' = toLowerCase (name e)"
    using catalog_keyed by auto
  from 1 2 3 catalog_distinct show ?thesis by blast
qed

theorem catalog_lookup_last_wins_witness:
  "Map_get (catalog [potion_upper, spot, potion_lower]) ''potion'' = Some potion_lower
   \<and> Map_has (catalog [potion_upper, spot, potion_lower]) ''potion''
   \<and> map fst (catalog [potion_upper, spot, potion_lower]) = [''potion'', ''spot'']"
proof -
  have a: "find (\<lambda>e. toLowerCase (name e) = ''potion'') (rev [potion_upper, spot, potion_lower])
             = Some potion_lower"
    by code_simp
  have b: "map fst (catalog [potion_upper, spot, potion_lower]) = [''potion'', ''spot'']"
    by code_simp
  have c: "\<exists>e \<in> set [potion_upper, spot, potion_lower]. toLowerCase (name e) = ''potion''"
    by code_simp
  from catalog_lookup_last_wins[of "[potion_upper, spot, potion_lower]" "''potion''"] a b c
  show ?thesis by simp
qed

text \<open>
  The entries of the index are the entries of the file that no later entry with the same
  lowercased name has replaced.
\<close>

lemma stored_iff_last:
  "E \<in> snd ` set (catalog data) \<longleftrightarrow>
     find (\<lambda>e. toLowerCase (name e) = toLowerCase (name E)) (rev data) = Some E"
proof
  assume "E \<in> snd ` set (catalog data)"
  then obtain k where kE: "(k, E) \<in> set (catalog data)" by force
  then have k: "k = toLowerCase (name E)" by (rule catalog_keyed)
  from kE have "map_of (catalog data) k = Some E"
    using catalog_distinct by (simp add: map_of_eq_Some_iff)
  then show "find (\<lambda>e. toLowerCase (name e) = toLowerCase (name E)) (rev data) = Some E"
    unfolding k catalog_def loadKoreanItemDB_def
    by (simp add: map_of_load split: option.splits)
next
  assume "find (\<lambda>e. toLowerCase (name e) = toLowerCase (name E)) (rev data) = Some E"
  then have "map_of (catalog data) (toLowerCase (name E)) = Some E"
    unfolding catalog_def loadKoreanItemDB_def by (simp add: map_of_load)
  then have "(toLowerCase (name E), E) \<in> set (catalog data)" by (rule map_of_SomeD)
  then show "E \<in> snd ` set (catalog data)" by force
qed


section \<open>The text resolver: proofs\<close>

text \<open>
  Claim C4. Let E be an entry of the catalog index, that is, an entry stored in the
  \<open>Map\<close> after the load (an entry of the file that a later entry with the same
  lowercased name has replaced is not in the index, see C8). For every query that
  lowercases to the lowercased name of E, so for every letter-casing of that name, the
  resolver returns E as the item and no suggestions, whatever else the index holds. The
  result is that of the first \<open>return\<close>: the three arrays are not consulted.
\<close>

theorem exact_match_short_circuit:
  assumes "E \<in> snd ` set (catalog data)"
      and "toLowerCase query = toLowerCase (name E)"
  shows "searchKoreanItem (catalog data) query = \<lparr>item = Some E, suggestions = []\<rparr>"
proof -
  from assms(1) obtain k where kE: "(k, E) \<in> set (catalog data)" by force
  then have k: "k = toLowerCase query" using catalog_keyed assms(2) by simp
  from kE have has: "Map_has (catalog data) (toLowerCase query)"
    unfolding Map_has_def k by force
  from kE have "map_of (catalog data) (toLowerCase query) = Some E"
    unfolding k using catalog_distinct by (simp add: map_of_eq_Some_iff)
  with has show ?thesis
    by (simp add: searchKoreanItem_def Map_get_def)
qed

theorem exact_match_short_circuit_witness:
  "pottery \<in> snd ` set (catalog [spot, pottery, hot_pot])
   \<and> toLowerCase ''POTtery'' = toLowerCase (name pottery)
   \<and> searchKoreanItem (catalog [spot, pottery, hot_pot]) ''POTtery''
       = \<lparr>item = Some pottery, suggestions = []\<rparr>"
proof -
  have a: "pottery \<in> snd ` set (catalog [spot, pottery, hot_pot])" by code_simp
  have b: "toLowerCase ''POTtery'' = toLowerCase (name pottery)" by code_simp
  from exact_match_short_circuit[OF a b] a b show ?thesis by simp
qed

text \<open>
  Of two entries of the file whose names differ in letter case only, the later one is
  in the index, and a query for the name of the earlier one returns the later one.
\<close>

lemma duplicate_name_resolves_to_last:
  "searchKoreanItem (catalog [potion_upper, spot, potion_lower]) ''POTION''
     = \<lparr>item = Some potion_lower, suggestions = []\<rparr>"
  by code_simp

text \<open>The loop leaves in each array the entries of its tier, in catalog order.\<close>

lemma fold_classify:
  "fold (classify q) db (e, s, c) =
     (e @ map snd (filter (\<lambda>(nm, it). endsWith nm q) db),
      s @ map snd (filter (\<lambda>(nm, it). \<not> endsWith nm q \<and> startsWith nm q) db),
      c @ map snd (filter (\<lambda>(nm, it). \<not> endsWith nm q \<and> \<not> startsWith nm q \<and> includes_str nm q) db))"
proof (induction db arbitrary: e s c)
  case Nil
  show ?case by simp
next
  case (Cons p db)
  obtain nm it where p: "p = (nm, it)" by (cases p)
  show ?case unfolding p by (simp add: Cons.IH)
qed

text \<open>Sorting with \<open>sortFn\<close> is the stable sort by rank.\<close>

lemma sortFn_le: "sortFn a b \<le> 0 \<longleftrightarrow> tier_rank a \<le> tier_rank b"
  by (auto simp: sortFn_def tier_rank_def)

lemma place_sortFn: "place sortFn x ys = insort_key tier_rank x ys"
  by (induction ys) (simp_all add: sortFn_le)

lemma Array_sort_sortFn: "Array_sort sortFn xs = sort_key tier_rank xs"
  by (induction xs) (simp_all add: Array_sort_def place_sortFn)

lemma allMatches_spec: "allMatches db q = spec_concatenation db q"
  by (simp add: allMatches_def fold_classify Array_sort_sortFn spec_concatenation_def spec_tier_def)

lemma tier_rank_le: "tier_rank a \<le> tier_rank b \<longleftrightarrow> in_tier_order a b"
  by (auto simp: tier_rank_def in_tier_order_def)

lemma spec_tier_sorted: "sorted_wrt in_tier_order (spec_tier P db)"
proof -
  have "sorted (map tier_rank (spec_tier P db))"
    by (simp add: spec_tier_def)
  then show ?thesis
    by (simp add: sorted_map tier_rank_le)
qed

text \<open>Every entry whose key contains the query is in the concatenation once.\<close>

lemma tiers_partition:
  "mset (spec_concatenation db q) =
     mset (map snd (filter (\<lambda>(nm, it). includes_str nm q) db))"
proof (induction db)
  case Nil
  show ?case by (simp add: spec_concatenation_def spec_tier_def)
next
  case (Cons p db)
  obtain nm it where p: "p = (nm, it)" by (cases p)
  have e: "endsWith nm q \<Longrightarrow> includes_str nm q"
    by (simp add: endsWith_def includes_str_def suffix_imp_sublist)
  have s: "startsWith nm q \<Longrightarrow> includes_str nm q"
    by (simp add: startsWith_def includes_str_def prefix_imp_sublist)
  from Cons.IH e s show ?case
    unfolding p by (auto simp: spec_concatenation_def spec_tier_def)
qed

lemma search_no_exact:
  "\<not> Map_has db (toLowerCase query) \<Longrightarrow>
   searchKoreanItem db query =
     (case allMatches db (toLowerCase query) of
        [] \<Rightarrow> \<lparr>item = None, suggestions = []\<rparr>
      | p # rest \<Rightarrow> \<lparr>item = Some p, suggestions = take 10 rest\<rparr>)"
  by (simp add: searchKoreanItem_def slice_def Let_def split: list.splits)

text \<open>
  Claim C1. For every index and every query whose lowercased form is not a key of it,
  the array the resolver builds is the concatenation of the three tiers: the entries
  whose key ends with the query; then those whose key does not end with it but starts
  with it; then those whose key does neither but contains it. Each tier is in ascending
  order of name length, and of id where the lengths agree. Each entry whose key contains
  the query is in the concatenation exactly as often as in the index, so in one tier
  only, and no other entry is in it. The item returned is the first element of the
  concatenation, and there is none when the concatenation is empty.
\<close>

theorem tiered_scan:
  assumes "\<not> Map_has db (toLowerCase query)"
  shows "searchKoreanItem db query =
           (case spec_concatenation db (toLowerCase query) of
              [] \<Rightarrow> \<lparr>item = None, suggestions = []\<rparr>
            | p # rest \<Rightarrow> \<lparr>item = Some p, suggestions = take 10 rest\<rparr>)
         \<and> allMatches db (toLowerCase query) = spec_concatenation db (toLowerCase query)
         \<and> sorted_wrt in_tier_order (spec_tier (\<lambda>nm. endsWith nm (toLowerCase query)) db)
         \<and> sorted_wrt in_tier_order
              (spec_tier (\<lambda>nm. \<not> endsWith nm (toLowerCase query) \<and> startsWith nm (toLowerCase query)) db)
         \<and> sorted_wrt in_tier_order
              (spec_tier (\<lambda>nm. \<not> endsWith nm (toLowerCase query) \<and> \<not> startsWith nm (toLowerCase query)
                                \<and> includes_str nm (toLowerCase query)) db)
         \<and> mset (spec_concatenation db (toLowerCase query)) =
             mset (map snd (filter (\<lambda>(nm, it). includes_str nm (toLowerCase query)) db))"
  using search_no_exact[OF assms] allMatches_spec[of db "toLowerCase query"]
    spec_tier_sorted tiers_partition[of db "toLowerCase query"]
  by simp

text \<open>
  On the catalog Spot, Pottery, Hot Pot and the query \<open>pot\<close>: the keys \<open>spot\<close> and
  \<open>hot pot\<close> both end with the query and \<open>pottery\<close> starts with it, so the order is
  Spot, Hot Pot, Pottery.
\<close>

theorem tiered_scan_witness:
  "\<not> Map_has (catalog [spot, pottery, hot_pot]) (toLowerCase ''pot'')
   \<and> searchKoreanItem (catalog [spot, pottery, hot_pot]) ''pot''
       = \<lparr>item = Some spot, suggestions = [hot_pot, pottery]\<rparr>"
proof -
  have h: "\<not> Map_has (catalog [spot, pottery, hot_pot]) (toLowerCase ''pot'')"
    by code_simp
  have c: "spec_concatenation (catalog [spot, pottery, hot_pot]) (toLowerCase ''pot'')
             = [spot, hot_pot, pottery]"
    by code_simp
  from tiered_scan[OF h] c h show ?thesis by simp
qed

lemma allMatches_distinct: "distinct (allMatches (catalog data) q)"
proof -
  have "distinct (map snd (filter (\<lambda>(nm, it). includes_str nm q) (catalog data)))"
    using catalog_values_distinct[of data] by (simp add: distinct_map_filter)
  then show ?thesis
    using tiers_partition[of "catalog data" q] allMatches_spec[of "catalog data" q]
    by (metis mset_eq_imp_distinct_iff)
qed

text \<open>
  Claim C7. Take any catalog index and any query for which the resolver builds the
  concatenation \<open>allMatches\<close> (it does so when the lowercased query is not a key; on an
  exact match it returns before, see C4) and for which that concatenation has more than
  11 elements. Then the resolver returns exactly 10 suggestions, they are the elements
  at the positions 1 to 10 of the concatenation, the item is the element at position 0,
  and that element is not among the suggestions.
\<close>

theorem alternates_cap:
  assumes "\<not> Map_has (catalog data) (toLowerCase query)"
      and "11 < length (allMatches (catalog data) (toLowerCase query))"
  shows "length (suggestions (searchKoreanItem (catalog data) query)) = 10
         \<and> suggestions (searchKoreanItem (catalog data) query) =
             map (\<lambda>i. allMatches (catalog data) (toLowerCase query) ! i) [1..<11]
         \<and> item (searchKoreanItem (catalog data) query) =
             Some (allMatches (catalog data) (toLowerCase query) ! 0)
         \<and> allMatches (catalog data) (toLowerCase query) ! 0
             \<notin> set (suggestions (searchKoreanItem (catalog data) query))"
proof -
  define ms where "ms = allMatches (catalog data) (toLowerCase query)"
  obtain p rest where ms: "ms = p # rest"
    using assms(2) unfolding ms_def[symmetric] by (cases ms) auto
  have len: "10 < length rest" using assms(2) unfolding ms_def[symmetric] ms by simp
  have r: "searchKoreanItem (catalog data) query = \<lparr>item = Some p, suggestions = take 10 rest\<rparr>"
    using search_no_exact[OF assms(1)] unfolding ms_def[symmetric] ms by simp
  have d: "distinct (p # rest)" using allMatches_distinct[of data "toLowerCase query"]
    unfolding ms_def[symmetric] ms .
  have pos: "take 10 rest = map (\<lambda>i. (p # rest) ! i) [1..<11]"
  proof (rule nth_equalityI)
    show "length (take 10 rest) = length (map (\<lambda>i. (p # rest) ! i) [1..<11])"
      using len by simp
  next
    fix i assume "i < length (take 10 rest)"
    then have i: "i < 10" by simp
    then have "[1..<11] ! i = Suc i" by (simp add: nth_upt)
    with i len show "take 10 rest ! i = map (\<lambda>i. (p # rest) ! i) [1..<11] ! i"
      by simp
  qed
  have notin: "p \<notin> set (take 10 rest)"
    using d by (auto dest: in_set_takeD)
  show ?thesis
    unfolding ms_def[symmetric] r using len pos notin by (simp add: ms)
qed

theorem alternates_cap_witness:
  "\<not> Map_has (catalog twelve_pots) (toLowerCase ''pot'')
   \<and> 11 < length (allMatches (catalog twelve_pots) (toLowerCase ''pot''))
   \<and> length (suggestions (searchKoreanItem (catalog twelve_pots) ''pot'')) = 10
   \<and> map item_id (suggestions (searchKoreanItem (catalog twelve_pots) ''pot''))
       = [1, 2, 3, 4, 5, 6, 7, 8, 9, 10]
   \<and> map_option item_id (item (searchKoreanItem (catalog twelve_pots) ''pot'')) = Some 0"
proof -
  have h: "\<not> Map_has (catalog twelve_pots) (toLowerCase ''pot'')"
    by code_simp
  have ms: "map item_id (allMatches (catalog twelve_pots) (toLowerCase ''pot''))
              = [0, 1, 2, 3, 4, 5, 6, 7, 8, 9, 10, 11]"
    by code_simp
  have l: "11 < length (allMatches (catalog twelve_pots) (toLowerCase ''pot''))"
    using arg_cong[OF ms, of length] by simp
  have ix: "map item_id (map (\<lambda>i. allMatches (catalog twelve_pots) (toLowerCase ''pot'') ! i) [1..<11])
              = [1, 2, 3, 4, 5, 6, 7, 8, 9, 10]"
    by code_simp
  have z: "item_id (allMatches (catalog twelve_pots) (toLowerCase ''pot'') ! 0) = 0"
    by code_simp
  from alternates_cap[OF h l] h l ix z show ?thesis by simp
qed

section \<open>The price aggregator: proofs\<close>

lemma fold_fallbackRound:
  "fold (fallbackRound net) ws acc = acc @ map (\<lambda>w. fallbackEntry w (net (world_id w))) ws"
  by (induction ws arbitrary: acc) (simp_all add: fallbackRound_def)

lemma fold_unifiedRound:
  "fold (unifiedRound d) ws acc = acc @ map (unifiedEntry d) ws"
  by (induction ws arbitrary: acc) (simp_all add: unifiedRound_def)

lemma serverId_fallbackEntry: "serverId (fallbackEntry w r) = world_id w"
  by (simp add: fallbackEntry_def fallbackQuote_def failureSummary_def Let_def
      split: outcome.splits option.splits)

lemma serverId_unifiedEntry: "serverId (unifiedEntry d w) = world_id w"
  by (simp add: unifiedEntry_def Let_def)

lemma world_ids: "map world_id KOREAN_SERVERS = [2075, 2076, 2077, 2078, 2080]"
  by (simp add: KOREAN_SERVERS_def)

lemma failed_entry:
  "call_fails r \<Longrightarrow> \<exists>msg. fallbackEntry w r = failureSummary w msg"
  by (cases r) (auto simp: call_fails_def fallbackEntry_def getMarketData_def)

lemma marked_iff_fails: "error (fallbackEntry w r) \<noteq> None \<longleftrightarrow> call_fails r"
  by (cases r)
     (auto simp: call_fails_def fallbackEntry_def getMarketData_def fallbackQuote_def
        failureSummary_def Let_def)

lemma filter_map_length:
  "length (filter P (map f xs)) = length (filter (\<lambda>x. P (f x)) xs)"
  by (induction xs) simp_all

text \<open>
  Claim C3. In the fallback, whatever the five calls answer: the list of summaries is,
  in the order of \<open>KOREAN_SERVERS\<close> (2075, 2076, 2077, 2078, 2080), the summary each
  world's own response produces, so no response reaches another world's summary. A call
  that fails gives a summary with the \<open>error\<close> marker and no count or price; a call that
  does not fail gives a summary without the marker; a body with no listings, and
  likewise a "not found" answer, gives the count 0 and no marker. The number of marked
  summaries is the number of failed calls: when exactly one of the five calls fails,
  exactly one summary is marked.
\<close>

theorem fallback_isolation:
  "servers (getAllKoreanServerPricesFallback net)
     = map (\<lambda>w. fallbackEntry w (net (world_id w))) KOREAN_SERVERS
   \<and> map serverId (servers (getAllKoreanServerPricesFallback net))
       = [2075, 2076, 2077, 2078, 2080]
   \<and> (\<forall>w r. call_fails r \<longrightarrow>
         error (fallbackEntry w r) \<noteq> None \<and> listingCount (fallbackEntry w r) = Undefined
         \<and> minPriceNQ (fallbackEntry w r) = Undefined \<and> minPriceHQ (fallbackEntry w r) = Undefined)
   \<and> (\<forall>w r. \<not> call_fails r \<longrightarrow> error (fallbackEntry w r) = None)
   \<and> (\<forall>w d. listings d = None \<or> listings d = Some [] \<longrightarrow>
         fallbackEntry w (Body d) =
           \<lparr>server = world_name w, serverId = world_id w, emoji = world_emoji w,
            error = None, summary_hasData = hasData d, listingCount = Number 0,
            minPriceNQ = Null, minPriceHQ = Null,
            summary_lastUploadTime =
              (case lastUploadTime d of None \<Rightarrow> Undefined | Some t \<Rightarrow> Number t)\<rparr>)
   \<and> (\<forall>w msg. listingCount (fallbackEntry w (Rejected (Some 404) msg)) = Number 0
         \<and> error (fallbackEntry w (Rejected (Some 404) msg)) = None)
   \<and> length (filter (\<lambda>r. error r \<noteq> None) (servers (getAllKoreanServerPricesFallback net)))
       = length (filter (\<lambda>w. call_fails (net (world_id w))) KOREAN_SERVERS)"
proof -
  have s: "servers (getAllKoreanServerPricesFallback net)
             = map (\<lambda>w. fallbackEntry w (net (world_id w))) KOREAN_SERVERS"
    by (simp add: getAllKoreanServerPricesFallback_def fold_fallbackRound)
  have ids: "map serverId (servers (getAllKoreanServerPricesFallback net))
               = [2075, 2076, 2077, 2078, 2080]"
    unfolding s by (simp add: serverId_fallbackEntry comp_def world_ids)
  have f: "\<forall>w r. call_fails r \<longrightarrow>
         error (fallbackEntry w r) \<noteq> None \<and> listingCount (fallbackEntry w r) = Undefined
         \<and> minPriceNQ (fallbackEntry w r) = Undefined \<and> minPriceHQ (fallbackEntry w r) = Undefined"
  proof (intro allI impI)
    fix w r assume "call_fails r"
    then obtain msg where "fallbackEntry w r = failureSummary w msg"
      using failed_entry by blast
    then show "error (fallbackEntry w r) \<noteq> None \<and> listingCount (fallbackEntry w r) = Undefined
         \<and> minPriceNQ (fallbackEntry w r) = Undefined \<and> minPriceHQ (fallbackEntry w r) = Undefined"
      by (simp add: failureSummary_def)
  qed
  have ok: "\<forall>w r. \<not> call_fails r \<longrightarrow> error (fallbackEntry w r) = None"
    using marked_iff_fails by blast
  have empty: "\<forall>w d. listings d = None \<or> listings d = Some [] \<longrightarrow>
         fallbackEntry w (Body d) =
           \<lparr>server = world_name w, serverId = world_id w, emoji = world_emoji w,
            error = None, summary_hasData = hasData d, listingCount = Number 0,
            minPriceNQ = Null, minPriceHQ = Null,
            summary_lastUploadTime =
              (case lastUploadTime d of None \<Rightarrow> Undefined | Some t \<Rightarrow> Number t)\<rparr>"
    by (auto simp: fallbackEntry_def getMarketData_def fallbackQuote_def)
  have nf: "\<forall>w msg. listingCount (fallbackEntry w (Rejected (Some 404) msg)) = Number 0
         \<and> error (fallbackEntry w (Rejected (Some 404) msg)) = None"
    by (simp add: fallbackEntry_def getMarketData_def fallbackQuote_def)
  have cnt: "length (filter (\<lambda>r. error r \<noteq> None) (servers (getAllKoreanServerPricesFallback net)))
       = length (filter (\<lambda>w. call_fails (net (world_id w))) KOREAN_SERVERS)"
  proof -
    have "length (filter (\<lambda>r. error r \<noteq> None)
                   (map (\<lambda>w. fallbackEntry w (net (world_id w))) KOREAN_SERVERS))
            = length (filter (\<lambda>w. error (fallbackEntry w (net (world_id w))) \<noteq> None)
                        KOREAN_SERVERS)"
      by (rule filter_map_length)
    also have "\<dots> = length (filter (\<lambda>w. call_fails (net (world_id w))) KOREAN_SERVERS)"
      by (simp only: marked_iff_fails)
    finally show ?thesis unfolding s .
  qed
  from s ids f ok empty nf cnt show ?thesis by blast
qed

theorem fallback_isolation_witness:
  "map (\<lambda>r. error r \<noteq> None) (servers (getAllKoreanServerPricesFallback one_timeout))
     = [False, False, True, False, False]
   \<and> map listingCount (servers (getAllKoreanServerPricesFallback one_timeout))
     = [Number 2, Number 0, Undefined, Number 2, Number 2]
   \<and> length (filter (\<lambda>r. error r \<noteq> None) (servers (getAllKoreanServerPricesFallback one_timeout)))
     = 1"
proof -
  have a: "map (\<lambda>r. error r \<noteq> None) (map (\<lambda>w. fallbackEntry w (one_timeout (world_id w))) KOREAN_SERVERS)
             = [False, False, True, False, False]"
    by code_simp
  have b: "map listingCount (map (\<lambda>w. fallbackEntry w (one_timeout (world_id w))) KOREAN_SERVERS)
             = [Number 2, Number 0, Undefined, Number 2, Number 2]"
    by code_simp
  have c: "length (filter (\<lambda>w. call_fails (one_timeout (world_id w))) KOREAN_SERVERS) = 1"
    by code_simp
  note T = fallback_isolation[of one_timeout]
  from T have s: "servers (getAllKoreanServerPricesFallback one_timeout)
                    = map (\<lambda>w. fallbackEntry w (one_timeout (world_id w))) KOREAN_SERVERS"
    by (rule conjunct1)
  from T have cnt:
    "length (filter (\<lambda>r. error r \<noteq> None) (servers (getAllKoreanServerPricesFallback one_timeout)))
       = length (filter (\<lambda>w. call_fails (one_timeout (world_id w))) KOREAN_SERVERS)"
    by blast
  have 1: "map (\<lambda>r. error r \<noteq> None) (servers (getAllKoreanServerPricesFallback one_timeout))
             = [False, False, True, False, False]"
    unfolding s by (rule a)
  have 2: "map listingCount (servers (getAllKoreanServerPricesFallback one_timeout))
             = [Number 2, Number 0, Undefined, Number 2, Number 2]"
    unfolding s by (rule b)
  have 3: "length (filter (\<lambda>r. error r \<noteq> None)
                     (servers (getAllKoreanServerPricesFallback one_timeout))) = 1"
    using cnt c by (simp only:)
  from 1 2 3 show ?thesis by blast
qed

text \<open>
  Claim C6, as amended. For every fallback report, whatever the five calls answer, both
  recent-trade minima are \<open>null\<close>, the report has no \<open>sourceLabel\<close> property (reading it
  gives \<open>undefined\<close>), and the one name it carries, \<open>dcName\<close>, is \<open>Korea\<close>.
\<close>

theorem fallback_report_fields:
  "recentTradeMinNQ (getAllKoreanServerPricesFallback net) = Null
   \<and> recentTradeMinHQ (getAllKoreanServerPricesFallback net) = Null
   \<and> report_property (getAllKoreanServerPricesFallback net) ''recentTradeMinNQ'' = Some (Value Null)
   \<and> report_property (getAllKoreanServerPricesFallback net) ''recentTradeMinHQ'' = Some (Value Null)
   \<and> report_property (getAllKoreanServerPricesFallback net) ''sourceLabel'' = None
   \<and> report_property (getAllKoreanServerPricesFallback net) ''dcName'' = Some (Text ''Korea'')"
  by (simp add: getAllKoreanServerPricesFallback_def report_property_def)

theorem fallback_report_fields_witness:
  "recentTradeMinNQ (getAllKoreanServerPricesFallback one_timeout) = Null
   \<and> recentTradeMinHQ (getAllKoreanServerPricesFallback one_timeout) = Null
   \<and> report_property (getAllKoreanServerPricesFallback one_timeout) ''sourceLabel'' = None
   \<and> report_property (getAllKoreanServerPricesFallback one_timeout) ''dcName'' = Some (Text ''Korea'')"
  using fallback_report_fields[of one_timeout] by simp

text \<open>
  Claim C6 as stated fails: reading \<open>sourceLabel\<close> from a fallback report gives
  \<open>undefined\<close>, not \<open>fallback\<close>.
\<close>

theorem fallback_label_counterexample:
  "report_property (getAllKoreanServerPricesFallback one_timeout) ''sourceLabel'' = None"
  by (simp add: report_property_def)

lemma Math_min_Min: "Math_min xs = Min (set xs)" if "xs \<noteq> []"
proof (cases xs)
  case Nil
  then show ?thesis using that by simp
next
  case (Cons a list)
  have "Min (set (a # list)) = fold min list a" by (rule Min.set_eq_fold)
  then show ?thesis unfolding Cons by simp
qed

lemma minPriceOf_least: "minPriceOf q ls = least_price (prices_of q ls)"
  by (simp add: minPriceOf_def least_price_def prices_of_def Let_def Math_min_Min)

lemma least_price_Nil: "ls = [] \<Longrightarrow> least_price (prices_of q ls) = Null"
  by (simp add: least_price_def prices_of_def)

lemma unifiedEntry_fields:
  "serverId (unifiedEntry d w) = world_id w
   \<and> error (unifiedEntry d w) = None
   \<and> listingCount (unifiedEntry d w) = Number (int (length (listings_of d (world_id w))))
   \<and> minPriceNQ (unifiedEntry d w) = least_price (prices_of False (listings_of d (world_id w)))
   \<and> minPriceHQ (unifiedEntry d w) = least_price (prices_of True (listings_of d (world_id w)))"
  by (simp add: unifiedEntry_def Let_def listings_of_def[symmetric] minPriceOf_least least_price_Nil)

lemma unifiedEntry_cong:
  "listings_of d' (world_id w) = listings_of d (world_id w) \<Longrightarrow>
   worldUploadTimes d' = worldUploadTimes d \<Longrightarrow> unifiedEntry d' w = unifiedEntry d w"
  by (simp add: unifiedEntry_def listings_of_def[symmetric])

text \<open>
  Claim C10. For every body of the data-centre response the report has exactly five
  summaries, those of the worlds 2075, 2076, 2077, 2078, 2080 in this order. The count of
  a world is the number of listings of the body whose \<open>worldID\<close> is the world's id, and
  each of its two minima is the least price among those listings of that quality, or
  \<open>null\<close> when there is none. Two bodies that have the same listings for each of the
  five worlds give the same ids, counts and minima: a listing with another \<open>worldID\<close>,
  or with none, changes no summary.
\<close>

theorem unified_decomposition:
  "servers (getAllKoreanServerPrices (Body d) net) = map (unifiedEntry d) KOREAN_SERVERS
   \<and> length (servers (getAllKoreanServerPrices (Body d) net)) = 5
   \<and> map serverId (servers (getAllKoreanServerPrices (Body d) net))
       = [2075, 2076, 2077, 2078, 2080]
   \<and> (\<forall>w. listingCount (unifiedEntry d w) = Number (int (length (listings_of d (world_id w))))
          \<and> minPriceNQ (unifiedEntry d w)
              = least_price (prices_of False (listings_of d (world_id w)))
          \<and> minPriceHQ (unifiedEntry d w)
              = least_price (prices_of True (listings_of d (world_id w))))
   \<and> (\<forall>d' net'.
         (\<forall>w \<in> set KOREAN_SERVERS. listings_of d' (world_id w) = listings_of d (world_id w)) \<longrightarrow>
         map (\<lambda>r. (serverId r, listingCount r, minPriceNQ r, minPriceHQ r))
             (servers (getAllKoreanServerPrices (Body d') net'))
         = map (\<lambda>r. (serverId r, listingCount r, minPriceNQ r, minPriceHQ r))
             (servers (getAllKoreanServerPrices (Body d) net)))"
proof -
  have s: "\<And>d net. servers (getAllKoreanServerPrices (Body d) net) = map (unifiedEntry d) KOREAN_SERVERS"
    by (simp add: getAllKoreanServerPrices_def Let_def fold_unifiedRound)
  have l: "length (servers (getAllKoreanServerPrices (Body d) net)) = 5"
    unfolding s by (simp add: KOREAN_SERVERS_def)
  have ids: "map serverId (servers (getAllKoreanServerPrices (Body d) net))
               = [2075, 2076, 2077, 2078, 2080]"
    unfolding s by (simp add: serverId_unifiedEntry comp_def world_ids)
  have f: "\<forall>w. listingCount (unifiedEntry d w) = Number (int (length (listings_of d (world_id w))))
          \<and> minPriceNQ (unifiedEntry d w)
              = least_price (prices_of False (listings_of d (world_id w)))
          \<and> minPriceHQ (unifiedEntry d w)
              = least_price (prices_of True (listings_of d (world_id w)))"
    using unifiedEntry_fields by blast
  have c: "\<forall>d' net'.
         (\<forall>w \<in> set KOREAN_SERVERS. listings_of d' (world_id w) = listings_of d (world_id w)) \<longrightarrow>
         map (\<lambda>r. (serverId r, listingCount r, minPriceNQ r, minPriceHQ r))
             (servers (getAllKoreanServerPrices (Body d') net'))
         = map (\<lambda>r. (serverId r, listingCount r, minPriceNQ r, minPriceHQ r))
             (servers (getAllKoreanServerPrices (Body d) net))"
    unfolding s by (simp add: unifiedEntry_fields)
  from s[of d net] l ids f c show ?thesis by blast
qed

theorem unified_decomposition_witness:
  "map listingCount (servers (getAllKoreanServerPrices (Body dc_payload) all_timeouts))
     = [Number 2, Number 0, Number 0, Number 1, Number 0]
   \<and> map minPriceNQ (servers (getAllKoreanServerPrices (Body dc_payload) all_timeouts))
     = [Number 30, Null, Null, Null, Null]
   \<and> map minPriceHQ (servers (getAllKoreanServerPrices (Body dc_payload) all_timeouts))
     = [Null, Null, Null, Number 70, Null]"
proof -
  have a: "map listingCount (map (unifiedEntry dc_payload) KOREAN_SERVERS)
             = [Number 2, Number 0, Number 0, Number 1, Number 0]"
    by code_simp
  have b: "map minPriceNQ (map (unifiedEntry dc_payload) KOREAN_SERVERS)
             = [Number 30, Null, Null, Null, Null]"
    by code_simp
  have c: "map minPriceHQ (map (unifiedEntry dc_payload) KOREAN_SERVERS)
             = [Null, Null, Null, Number 70, Null]"
    by code_simp
  from unified_decomposition[of dc_payload all_timeouts] a b c show ?thesis by simp
qed

text \<open>
  Claim C2 on the code: a "not found" answer to the data-centre request is caught like
  any other rejection and the report is the fallback's. When the five per-world calls
  then time out, every summary carries the failure marker and no count.
\<close>

theorem unified_not_found_runs_fallback:
  "map error (servers (getAllKoreanServerPrices
       (Rejected (Some 404) ''Request failed with status code 404'') all_timeouts))
     = replicate 5 (Some ''timeout of 10000ms exceeded'')
   \<and> map listingCount (servers (getAllKoreanServerPrices
       (Rejected (Some 404) ''Request failed with status code 404'') all_timeouts))
     = replicate 5 Undefined"
  by code_simp

section \<open>The summary builder: proofs\<close>

lemma js_less_Number: "js_less (Number n) (Number a) \<longleftrightarrow> n < a"
  by (simp add: js_less_def toNumber_def)

lemma fold_overall_Number:
  assumes "\<forall>r \<in> set rs. truthy_error r \<or> f r \<noteq> Undefined"
  shows "fold (\<lambda>r overall. if overall = Null \<or> js_less (f r) overall then f r else overall)
           (filter (\<lambda>r. \<not> truthy_error r \<and> f r \<noteq> Null) rs) (Number a)
         = Number (fold min (present_prices f rs) a)"
  using assms
proof (induction rs arbitrary: a)
  case Nil
  show ?case by (simp add: present_prices_def)
next
  case (Cons r rs)
  from Cons.prems have rest: "\<forall>r \<in> set rs. truthy_error r \<or> f r \<noteq> Undefined" by simp
  have pp: "present_prices f (r # rs) =
              (if truthy_error r then [] else (case f r of Number n \<Rightarrow> [n] | _ \<Rightarrow> []))
                @ present_prices f rs"
    by (simp add: present_prices_def)
  show ?case
  proof (cases "\<not> truthy_error r \<and> f r \<noteq> Null")
    case False
    then show ?thesis using Cons.IH[OF rest] by (auto simp: pp split: jsval.splits)
  next
    case True
    with Cons.prems obtain n where n: "f r = Number n" by (cases "f r") auto
    show ?thesis using True Cons.IH[OF rest, of "min n a"] 
      by (auto simp: pp n js_less_Number min_def)
  qed
qed

lemma fold_overall_Null:
  assumes "\<forall>r \<in> set rs. truthy_error r \<or> f r \<noteq> Undefined"
  shows "fold (\<lambda>r overall. if overall = Null \<or> js_less (f r) overall then f r else overall)
           (filter (\<lambda>r. \<not> truthy_error r \<and> f r \<noteq> Null) rs) Null
         = spec_overallMin f rs"
  using assms
proof (induction rs)
  case Nil
  show ?case by (simp add: spec_overallMin_def present_prices_def)
next
  case (Cons r rs)
  from Cons.prems have rest: "\<forall>r \<in> set rs. truthy_error r \<or> f r \<noteq> Undefined" by simp
  have pp: "present_prices f (r # rs) =
              (if truthy_error r then [] else (case f r of Number n \<Rightarrow> [n] | _ \<Rightarrow> []))
                @ present_prices f rs"
    by (simp add: present_prices_def)
  show ?case
  proof (cases "\<not> truthy_error r \<and> f r \<noteq> Null")
    case False
    then have "present_prices f (r # rs) = present_prices f rs"
      by (auto simp: pp split: jsval.splits)
    then show ?thesis using False Cons.IH[OF rest] by (auto simp: spec_overallMin_def)
  next
    case True
    with Cons.prems obtain n where n: "f r = Number n" by (cases "f r") auto
    have p: "present_prices f (r # rs) = n # present_prices f rs"
      using True by (simp add: pp n)
    have "Min (set (n # present_prices f rs)) = fold min (present_prices f rs) n"
      by (rule Min.set_eq_fold)
    then show ?thesis
      using True fold_overall_Number[OF rest, of n]
      by (simp add: n spec_overallMin_def p)
  qed
qed

lemma overallMinNQ_spec:
  "\<forall>r \<in> set rs. shaped r \<Longrightarrow> overallMinNQ rs = spec_overallMin minPriceNQ rs"
  unfolding overallMinNQ_def serversWithNQ_def
  by (rule fold_overall_Null) (auto simp: shaped_def)

lemma overallMinHQ_spec:
  "\<forall>r \<in> set rs. shaped r \<Longrightarrow> overallMinHQ rs = spec_overallMin minPriceHQ rs"
  unfolding overallMinHQ_def serversWithHQ_def
  by (rule fold_overall_Null) (auto simp: shaped_def)

lemma present_prices_mem:
  "n \<in> set (present_prices f rs) \<longleftrightarrow> (\<exists>r \<in> set rs. \<not> truthy_error r \<and> f r = Number n)"
  by (induction rs) (auto simp: present_prices_def split: jsval.splits)

lemma equals_overall_iff:
  assumes "r \<in> set rs" and "\<not> truthy_error r"
  shows "f r = spec_overallMin f rs \<and> spec_overallMin f rs \<noteq> Null
         \<longleftrightarrow> (\<exists>n. f r = Number n \<and> (\<forall>m \<in> set (present_prices f rs). n \<le> m))"
proof
  assume L: "f r = spec_overallMin f rs \<and> spec_overallMin f rs \<noteq> Null"
  then have ne: "present_prices f rs \<noteq> []" by (auto simp: spec_overallMin_def)
  with L have "f r = Number (Min (set (present_prices f rs)))" by (simp add: spec_overallMin_def)
  moreover have "\<forall>m \<in> set (present_prices f rs). Min (set (present_prices f rs)) \<le> m"
    by simp
  ultimately show "\<exists>n. f r = Number n \<and> (\<forall>m \<in> set (present_prices f rs). n \<le> m)" by blast
next
  assume "\<exists>n. f r = Number n \<and> (\<forall>m \<in> set (present_prices f rs). n \<le> m)"
  then obtain n where n: "f r = Number n" and le: "\<forall>m \<in> set (present_prices f rs). n \<le> m"
    by blast
  from assms n have mem: "n \<in> set (present_prices f rs)"
    by (auto simp: present_prices_mem)
  then have ne: "present_prices f rs \<noteq> []" by auto
  have "Min (set (present_prices f rs)) = n"
    using mem le by (intro Min_eqI) auto
  then show "f r = spec_overallMin f rs \<and> spec_overallMin f rs \<noteq> Null"
    using ne n by (simp add: spec_overallMin_def)
qed

text \<open>
  Claim C5. For every report of the shape of the data model (a summary without a failure
  marker has both price fields, as a number or \<open>null\<close>): the overall minimum of each
  quality is the least of that quality's prices over the summaries without a failure
  marker in which the price is a number, and \<open>null\<close> when there is no such summary. A
  summary is flagged exactly when it has no failure marker and its price of one quality
  equals the overall minimum of that quality, that minimum being present; for a summary
  of the report this is to say that its price of one quality is a number no greater than
  any present price of that quality. So every summary that ties for the minimum is
  flagged, and a summary with a failure marker or with both prices absent is not.
\<close>

theorem cheapest_flags:
  assumes "\<forall>r \<in> set rs. shaped r"
  shows "overallMinNQ rs = spec_overallMin minPriceNQ rs
         \<and> overallMinHQ rs = spec_overallMin minPriceHQ rs
         \<and> (\<forall>r. isMin rs r \<longleftrightarrow>
               \<not> truthy_error r
               \<and> ((minPriceNQ r = spec_overallMin minPriceNQ rs \<and> spec_overallMin minPriceNQ rs \<noteq> Null)
                  \<or> (minPriceHQ r = spec_overallMin minPriceHQ rs \<and> spec_overallMin minPriceHQ rs \<noteq> Null)))
         \<and> (\<forall>r \<in> set rs. isMin rs r \<longleftrightarrow>
               \<not> truthy_error r
               \<and> ((\<exists>n. minPriceNQ r = Number n \<and> (\<forall>m \<in> set (present_prices minPriceNQ rs). n \<le> m))
                  \<or> (\<exists>n. minPriceHQ r = Number n \<and> (\<forall>m \<in> set (present_prices minPriceHQ rs). n \<le> m))))
         \<and> (\<forall>r. truthy_error r \<or> (minPriceNQ r = Null \<and> minPriceHQ r = Null) \<longrightarrow> \<not> isMin rs r)"
proof -
  note nq = overallMinNQ_spec[OF assms] and hq = overallMinHQ_spec[OF assms]
  have flag: "\<forall>r. isMin rs r \<longleftrightarrow>
               \<not> truthy_error r
               \<and> ((minPriceNQ r = spec_overallMin minPriceNQ rs \<and> spec_overallMin minPriceNQ rs \<noteq> Null)
                  \<or> (minPriceHQ r = spec_overallMin minPriceHQ rs \<and> spec_overallMin minPriceHQ rs \<noteq> Null))"
    by (simp add: isMin_def nq hq Let_def)
  have least: "\<forall>r \<in> set rs. isMin rs r \<longleftrightarrow>
               \<not> truthy_error r
               \<and> ((\<exists>n. minPriceNQ r = Number n \<and> (\<forall>m \<in> set (present_prices minPriceNQ rs). n \<le> m))
                  \<or> (\<exists>n. minPriceHQ r = Number n \<and> (\<forall>m \<in> set (present_prices minPriceHQ rs). n \<le> m)))"
  proof
    fix r assume r: "r \<in> set rs"
    show "isMin rs r \<longleftrightarrow>
               \<not> truthy_error r
               \<and> ((\<exists>n. minPriceNQ r = Number n \<and> (\<forall>m \<in> set (present_prices minPriceNQ rs). n \<le> m))
                  \<or> (\<exists>n. minPriceHQ r = Number n \<and> (\<forall>m \<in> set (present_prices minPriceHQ rs). n \<le> m)))"
    proof (cases "truthy_error r")
      case True
      then show ?thesis using flag by simp
    next
      case False
      show ?thesis
        using flag False equals_overall_iff[OF r False, of minPriceNQ]
          equals_overall_iff[OF r False, of minPriceHQ]
        by simp
    qed
  qed
  have absent: "\<forall>r. truthy_error r \<or> (minPriceNQ r = Null \<and> minPriceHQ r = Null) \<longrightarrow> \<not> isMin rs r"
    using flag by auto
  from nq hq flag least absent show ?thesis by blast
qed

theorem cheapest_flags_witness:
  "list_all shaped tie_report
   \<and> overallMinNQ tie_report = Number 30
   \<and> overallMinHQ tie_report = Number 90
   \<and> map (isMin tie_report) tie_report = [False, True, True, False, False]"
proof -
  have l: "list_all shaped tie_report" by code_simp
  then have h: "\<forall>r \<in> set tie_report. shaped r" by (simp only: list_all_iff)
  have a: "spec_overallMin minPriceNQ tie_report = Number 30" by code_simp
  have b: "spec_overallMin minPriceHQ tie_report = Number 90" by code_simp
  have c: "map (\<lambda>r. \<not> truthy_error r
               \<and> ((minPriceNQ r = Number 30 \<and> Number 30 \<noteq> Null)
                  \<or> (minPriceHQ r = Number 90 \<and> Number 90 \<noteq> Null))) tie_report
             = [False, True, True, False, False]"
    by code_simp
  note T = cheapest_flags[OF h]
  from T have nq: "overallMinNQ tie_report = Number 30" using a by simp
  from T have hq: "overallMinHQ tie_report = Number 90" using b by simp
  from T have "\<forall>r. isMin tie_report r \<longleftrightarrow>
               \<not> truthy_error r
               \<and> ((minPriceNQ r = Number 30 \<and> Number 30 \<noteq> Null)
                  \<or> (minPriceHQ r = Number 90 \<and> Number 90 \<noteq> Null))"
    unfolding a b by blast
  then have "isMin tie_report = (\<lambda>r. \<not> truthy_error r
               \<and> ((minPriceNQ r = Number 30 \<and> Number 30 \<noteq> Null)
                  \<or> (minPriceHQ r = Number 90 \<and> Number 90 \<noteq> Null)))"
    by (intro ext) blast
  with c have f: "map (isMin tie_report) tie_report = [False, True, True, False, False]"
    by (simp only:)
  from l nq hq f show ?thesis by blast
qed

lemma least_price_defined: "least_price ps \<noteq> Undefined"
  by (simp add: least_price_def)

lemma unifiedEntry_shaped: "shaped (unifiedEntry d w)"
  using unifiedEntry_fields[of d w] by (simp add: shaped_def least_price_defined)

lemma fallbackQuote_shaped: "shaped (fallbackQuote w d)"
  by (simp add: shaped_def fallbackQuote_def Let_def minPriceOf_least least_price_defined)

lemma fallbackEntry_shaped:
  "(\<forall>status msg. r = Rejected status msg \<longrightarrow> status = Some 404 \<or> msg \<noteq> []) \<Longrightarrow>
   shaped (fallbackEntry w r)"
proof (cases r)
  case (Body d)
  then show ?thesis by (simp add: fallbackEntry_def getMarketData_def fallbackQuote_shaped)
next
  case NullBody
  then show ?thesis
    by (simp add: fallbackEntry_def getMarketData_def shaped_def truthy_error_def
        failureSummary_def typeErrorMessage_def)
next
  case (Rejected status msg)
  assume "\<forall>status msg. r = Rejected status msg \<longrightarrow> status = Some 404 \<or> msg \<noteq> []"
  with Rejected have st: "status = Some 404 \<or> msg \<noteq> []" by blast
  show ?thesis
  proof (cases "status = Some 404")
    case True
    with Rejected show ?thesis
      by (simp add: fallbackEntry_def getMarketData_def fallbackQuote_shaped)
  next
    case False
    with st have "msg \<noteq> []" by simp
    with Rejected False show ?thesis
      by (simp add: fallbackEntry_def getMarketData_def shaped_def truthy_error_def
          failureSummary_def)
  qed
qed

text \<open>
  The reports of the aggregator have that shape as long as every rejection that is not a
  "not found" carries a message, as the errors of the HTTP client do.
\<close>

lemma aggregated_reports_shaped:
  assumes "\<forall>wid status msg. net wid = Rejected status msg \<longrightarrow> status = Some 404 \<or> msg \<noteq> []"
  shows "\<forall>r \<in> set (servers (getAllKoreanServerPrices unified net)). shaped r"
proof -
  have fb: "\<forall>r \<in> set (servers (getAllKoreanServerPricesFallback net)). shaped r"
    using assms
    by (auto simp: getAllKoreanServerPricesFallback_def fold_fallbackRound
        intro!: fallbackEntry_shaped)
  show ?thesis
  proof (cases unified)
    case (Body d)
    then show ?thesis
      by (simp add: getAllKoreanServerPrices_def Let_def fold_unifiedRound unifiedEntry_shaped)
  next
    case NullBody
    with fb show ?thesis by (simp add: getAllKoreanServerPrices_def)
  next
    case (Rejected status msg)
    with fb show ?thesis by (simp add: getAllKoreanServerPrices_def)
  qed
qed

section \<open>The catalog loader: proofs\<close>

lemma of_char_digit: "d < 10 \<Longrightarrow> (of_char (char_of (48 + d)) :: nat) = 48 + d"
  by simp

lemma digits_dec: "\<forall>c \<in> set (digits n). is_dec c"
proof (induction n rule: digits.induct)
  case (1 n)
  show ?case
  proof (cases "n < 10")
    case True
    then show ?thesis by (subst digits.simps) (simp add: is_dec_def)
  next
    case False
    have "n mod 10 < 10" by simp
    then have "is_dec (char_of (48 + n mod 10))"
      unfolding is_dec_def by (simp only: of_char_digit) simp
    with False 1 show ?thesis by (subst digits.simps) simp
  qed
qed

lemma digits_nonempty: "digits n \<noteq> []"
  by (subst digits.simps) simp

lemma dec_digitValue: "is_dec c \<Longrightarrow> digitValue c < 10"
  by (auto simp: is_dec_def digitValue_def Let_def)

lemma dec_not_white: "is_dec c \<Longrightarrow> \<not> isWhiteSpace c"
  by (auto simp: is_dec_def isWhiteSpace_def)

lemma dec_chars: "is_dec c \<Longrightarrow> c \<noteq> CHR ''-'' \<and> c \<noteq> CHR ''+'' \<and> c \<noteq> CHR ''x'' \<and> c \<noteq> CHR ''X''"
  by (auto simp: is_dec_def)

lemma digitValue_digit: "d < 10 \<Longrightarrow> digitValue (char_of (48 + d)) = d"
  by (simp add: digitValue_def Let_def)

lemma digits_value: "fold (\<lambda>c acc. acc * 10 + digitValue c) (digits n) 0 = n"
proof (induction n rule: digits.induct)
  case (1 n)
  show ?case
  proof (cases "n < 10")
    case True
    then show ?thesis by (subst digits.simps) (simp add: digitValue_digit)
  next
    case False
    have "digitValue (char_of (48 + n mod 10)) = n mod 10"
      by (rule digitValue_digit) simp
    with False 1 show ?thesis by (subst digits.simps) simp
  qed
qed








text \<open>The decimal numeral of an integer of at most \<open>2^53 - 1\<close> reads as that integer.\<close>

lemma parseInt_digits:
  assumes "radix = None \<or> radix = Some 10" and "int n \<le> MAX_SAFE_INTEGER"
  shows "parseInt (digits n) radix = Safe (int n)"
proof -
  let ?s = "digits n"
  have dec: "\<forall>c \<in> set ?s. is_dec c" by (rule digits_dec)
  have ne: "?s \<noteq> []" by (rule digits_nonempty)
  then have hd_in: "hd ?s \<in> set ?s" by simp
  with dec have hd: "is_dec (hd ?s)" by blast
  have dw: "dropWhile isWhiteSpace ?s = ?s"
    using hd ne dec_not_white by (cases ?s) auto
  have nohex: "take 2 ?s \<noteq> ''0x'' \<and> take 2 ?s \<noteq> ''0X''"
  proof -
    have sub: "set (take 2 ?s) \<subseteq> set ?s" by (rule set_take_subset)
    have x: "\<not> is_dec (CHR ''x'')" and X: "\<not> is_dec (CHR ''X'')"
      by (simp_all add: is_dec_def)
    have "take 2 ?s \<noteq> ''0x''"
    proof
      assume "take 2 ?s = ''0x''"
      then have "CHR ''x'' \<in> set (take 2 ?s)" by simp
      with sub dec x show False by blast
    qed
    moreover have "take 2 ?s \<noteq> ''0X''"
    proof
      assume "take 2 ?s = ''0X''"
      then have "CHR ''X'' \<in> set (take 2 ?s)" by simp
      with sub dec X show False by blast
    qed
    ultimately show ?thesis by blast
  qed
  have tw: "takeWhile (\<lambda>c. digitValue c < 10) ?s = ?s"
  proof -
    have "\<forall>c \<in> set ?s. digitValue c < 10" using dec dec_digitValue by blast
    then show ?thesis by (simp only: takeWhile_eq_all_conv)
  qed
  have sg: "hd ?s \<noteq> CHR ''-''" "hd ?s \<noteq> CHR ''+''"
    using dec_chars[OF hd] by simp_all
  from assms(1) show ?thesis
  proof
    assume "radix = None"
    then show ?thesis
      using assms(2) by (simp add: parseInt_def Let_def dw tw digits_value sg nohex ne)
  next
    assume "radix = Some 10"
    then show ?thesis
      using assms(2) by (simp add: parseInt_def Let_def dw tw digits_value sg ne)
  qed
qed



text \<open>
  Icon cells that are not plain numerals: leading zeros, a sign, or text after the
  digits.
\<close>

lemma icon_cells_read_by_parseInt:
  "parseRow 1 2 [''5'', ''Potion'', ''042'']
     = Emitted \<lparr>item_id = 5, name = ''Potion'', icon = Some ''/i/000000/000042.png''\<rparr>"
  "parseRow 1 2 [''5'', ''Potion'', ''+5'']
     = Emitted \<lparr>item_id = 5, name = ''Potion'', icon = Some ''/i/000000/000005.png''\<rparr>"
  "parseRow 1 2 [''5'', ''Potion'', ''12abc'']
     = Emitted \<lparr>item_id = 5, name = ''Potion'', icon = Some ''/i/000000/000012.png''\<rparr>"
  "parseRow 1 2 [''5'', ''Potion'', ''-5'']
     = Emitted \<lparr>item_id = 5, name = ''Potion'', icon = Some ''/i/000000/0000-5.png''\<rparr>"
  "parseRow 1 2 [''5'', ''Potion'', ''abc'']
     = Emitted \<lparr>item_id = 5, name = ''Potion'', icon = None\<rparr>"
  by code_simp+


end
